theory Spec2Isabelle
  imports Main "HOL-Library.Sublist"
begin

section \<open>JavaScript string primitives used by the extension\<close>

text \<open>
  Strings are lists of code units; the model keeps to code units below 256.
  \<open>String.prototype.replace\<close> with a string as replacement value does not insert
  that string verbatim: it is a replacement template, expanded once per match by the
  GetSubstitution operation of ECMA-262. Both regular expressions of \<open>formatUrl\<close>
  have no capture group and no named group, so \<open>$1\<close> ... \<open>$99\<close> and \<open>$<\<close> stay
  literal and four patterns remain: \<open>$$\<close> (a dollar sign), \<open>$&\<close> (the matched text),
  \<open>$`\<close> (the subject before the match) and \<open>$'\<close> (the subject after the match).
\<close>

fun getSubstitution :: "string \<Rightarrow> string \<Rightarrow> string \<Rightarrow> string \<Rightarrow> string" where
  "getSubstitution matched front back [] = []"
| "getSubstitution matched front back [c] = [c]"
| "getSubstitution matched front back (c # d # rest) =
     (if c = CHR ''$'' then
        (if d = CHR ''$'' then CHR ''$'' # getSubstitution matched front back rest
         else if d = CHR ''&'' then matched @ getSubstitution matched front back rest
         else if d = CHR 0x60 then front @ getSubstitution matched front back rest
         else if d = CHR 0x27 then back @ getSubstitution matched front back rest
         else c # getSubstitution matched front back (d # rest))
      else c # getSubstitution matched front back (d # rest))"

text \<open>
  \<open>subject.replace(/tok/g, template)\<close> for a literal token: the subject is scanned
  from the left, every match is replaced by the expansion of the template and the scan
  goes on behind the match. \<open>seen\<close> is the part of the subject already scanned.
\<close>

function replace_from :: "string \<Rightarrow> string \<Rightarrow> string \<Rightarrow> string \<Rightarrow> string" where
  "replace_from tok template seen [] = []"
| "replace_from tok template seen (c # cs) =
     (if prefix tok (c # cs)
      then getSubstitution tok seen (drop (length tok - 1) cs) template
             @ replace_from tok template (seen @ tok) (drop (length tok - 1) cs)
      else c # replace_from tok template (seen @ [c]) cs)"
  by pat_completeness auto
termination
  by (relation "measure (\<lambda>(tok, template, seen, s). length s)") auto

definition replaceAll :: "string \<Rightarrow> string \<Rightarrow> string \<Rightarrow> string" where
  "replaceAll tok template subject = replace_from tok template [] subject"

section \<open>index.ts: upload results and the result formatter\<close>

record UploadResult =
  filename :: string
  url :: string

definition formatUrl :: "string \<Rightarrow> UploadResult \<Rightarrow> string" where
  "formatUrl template result =
     replaceAll ''${url}'' (url result)
       (replaceAll ''${fileName}'' (filename result) template)"


text \<open>
  \<open>trim\<close> removes white space and line terminators at both ends; below 256 these
  are TAB, LF, VT, FF, CR, SPACE and NBSP. \<open>split('\n')\<close> always returns at
  least one piece. \<open>filter(Boolean)\<close> keeps the non-empty strings.
\<close>

definition isWhiteSpace :: "char \<Rightarrow> bool" where
  "isWhiteSpace c =
     (c = CHR 0x09 \<or> c = CHR 0x0A \<or> c = CHR 0x0B \<or> c = CHR 0x0C \<or> c = CHR 0x0D
      \<or> c = CHR 0x20 \<or> c = CHR 0xA0)"

definition trim :: "string \<Rightarrow> string" where
  "trim s = rev (dropWhile isWhiteSpace (rev (dropWhile isWhiteSpace s)))"

fun split_nl :: "string \<Rightarrow> string list" where
  "split_nl [] = [[]]"
| "split_nl (c # cs) =
     (if c = CHR 0x0A then [] # split_nl cs
      else (case split_nl cs of [] \<Rightarrow> [[c]] | l # ls \<Rightarrow> (c # l) # ls))"

definition filterBoolean :: "string list \<Rightarrow> string list" where
  "filterBoolean xs = filter (\<lambda>x. x \<noteq> []) xs"

fun join_nl :: "string list \<Rightarrow> string" where
  "join_nl [] = []"
| "join_nl [x] = x"
| "join_nl (x # y # ys) = x @ [CHR 0x0A] @ join_nl (y # ys)"

text \<open>\<open>xs[i] || ''\<close>: an index out of range reads \<open>undefined\<close>, which is falsy, as is
  the empty string.\<close>

definition index_or_empty :: "string list \<Rightarrow> nat \<Rightarrow> string" where
  "index_or_empty xs i = (if i < length xs \<and> xs ! i \<noteq> [] then xs ! i else [])"

text \<open>Decimal rendering of a number inside a template literal.\<close>

function digits :: "nat \<Rightarrow> string" where
  "digits n =
     (if n < 10 then [''0123456789'' ! n]
      else digits (n div 10) @ [''0123456789'' ! (n mod 10)])"
  by pat_completeness auto
termination
  by (relation "measure id") auto

definition show_int :: "int \<Rightarrow> string" where
  "show_int i = (if i < 0 then CHR ''-'' # digits (nat (- i)) else digits (nat i))"

text \<open>\<open>path.basename\<close> of Node (POSIX flavour): trailing slashes are dropped, then
  the part behind the last remaining slash is taken.\<close>

definition basename :: "string \<Rightarrow> string" where
  "basename p =
     rev (takeWhile (\<lambda>c. c \<noteq> CHR ''/'') (dropWhile (\<lambda>c. c = CHR ''/'') (rev p)))"

section \<open>index.ts: the upload invoker\<close>

text \<open>
  \<open>uploadImages\<close> spawns the external tool and returns a promise that its event
  handlers settle. The child process is the environment: it is modelled by the events it
  delivers, in order. A promise is settled once; later calls of \<open>resolve\<close> or
  \<open>reject\<close> change nothing. The exit code of the \<open>close\<close> event is \<open>null\<close> (here
  \<open>None\<close>) when the process was ended by a signal.
\<close>

datatype proc_event =
    StdoutData string
  | StderrData string
  | Close "int option"
  | ProcError string

datatype 'a promise = Pending | Resolved 'a | Rejected string

definition resolve :: "'a promise \<Rightarrow> 'a \<Rightarrow> 'a promise" where
  "resolve p v = (case p of Pending \<Rightarrow> Resolved v | _ \<Rightarrow> p)"

definition reject :: "'a promise \<Rightarrow> string \<Rightarrow> 'a promise" where
  "reject p msg = (case p of Pending \<Rightarrow> Rejected msg | _ \<Rightarrow> p)"

record upload_state =
  stdout :: string
  stderr :: string
  settled :: "UploadResult list promise"

definition show_code :: "int option \<Rightarrow> string" where
  "show_code code = (case code of None \<Rightarrow> ''null'' | Some c \<Rightarrow> show_int c)"

definition parse_urls :: "string \<Rightarrow> string list" where
  "parse_urls out = filterBoolean (split_nl (trim out))"

definition make_results :: "string list \<Rightarrow> string list \<Rightarrow> UploadResult list" where
  "make_results imagePaths urls =
     map (\<lambda>(index, imagePath).
            \<lparr>filename = basename imagePath, url = index_or_empty urls index\<rparr>)
         (enumerate 0 imagePaths)"

definition on_close :: "string list \<Rightarrow> int option \<Rightarrow> upload_state \<Rightarrow> upload_state" where
  "on_close imagePaths code st =
     (if code \<noteq> Some 0
      then st\<lparr>settled := reject (settled st)
                 (if stderr st \<noteq> [] then stderr st
                  else ''pic-od exited with code '' @ show_code code)\<rparr>
      else st\<lparr>settled := resolve (settled st)
                 (make_results imagePaths (parse_urls (stdout st)))\<rparr>)"

definition on_error :: "string \<Rightarrow> upload_state \<Rightarrow> upload_state" where
  "on_error message st =
     st\<lparr>settled := reject (settled st) (''Failed to execute pic-od: '' @ message)\<rparr>"

fun on_event :: "string list \<Rightarrow> upload_state \<Rightarrow> proc_event \<Rightarrow> upload_state" where
  "on_event imagePaths st (StdoutData d) = st\<lparr>stdout := stdout st @ d\<rparr>"
| "on_event imagePaths st (StderrData d) = st\<lparr>stderr := stderr st @ d\<rparr>"
| "on_event imagePaths st (Close code) = on_close imagePaths code st"
| "on_event imagePaths st (ProcError message) = on_error message st"

definition uploadImages :: "string list \<Rightarrow> proc_event list \<Rightarrow> UploadResult list promise" where
  "uploadImages imagePaths events =
     settled (foldl (on_event imagePaths)
                \<lparr>stdout = [], stderr = [], settled = Pending\<rparr> events)"

section \<open>index.ts: batch orchestration\<close>

text \<open>
  What the user can observe of \<open>handleUpload\<close> is the list of effects on the editor
  host. \<open>None\<close> stands for a call that never completes, because the promise of
  \<open>uploadImages\<close> is never settled. The active editor is absent, or present with an
  \<open>edit\<close> call that applies the insertion or rejects with an error.
\<close>

datatype ui_effect =
    InsertText string
  | ShowWarning string
  | ShowError string
  | LogInfo string
  | LogError string

datatype editor = NoEditor | Editor "string option"

definition insertTextAtCursor :: "editor \<Rightarrow> string \<Rightarrow> string + ui_effect list" where
  "insertTextAtCursor ed text =
     (case ed of
        NoEditor \<Rightarrow> Inr [ShowWarning ''No active text editor'']
      | Editor None \<Rightarrow> Inr [InsertText text]
      | Editor (Some message) \<Rightarrow> Inl message)"

definition handleUpload ::
  "string \<Rightarrow> editor \<Rightarrow> string list \<Rightarrow> proc_event list \<Rightarrow> ui_effect list option" where
  "handleUpload urlTemplate ed imagePaths events =
     (case uploadImages imagePaths events of
        Pending \<Rightarrow> None
      | Rejected message \<Rightarrow>
          Some [LogError (''Upload failed: '' @ message),
                ShowError (''Upload failed: '' @ message)]
      | Resolved results \<Rightarrow>
          (let formattedUrls =
                 join_nl (map (formatUrl urlTemplate) (filter (\<lambda>r. url r \<noteq> []) results))
           in if formattedUrls \<noteq> []
              then (case insertTextAtCursor ed formattedUrls of
                      Inl message \<Rightarrow>
                        Some [LogError (''Upload failed: '' @ message),
                              ShowError (''Upload failed: '' @ message)]
                    | Inr effects \<Rightarrow>
                        Some (effects @
                          [LogInfo (''Uploaded '' @ digits (length results) @ '' image(s)'')]))
              else Some [ShowWarning ''No URLs returned from upload'']))"


section \<open>clipboard.ts: the world outside the extension\<close>

text \<open>
  The extractors talk to the operating system only: they run a clipboard tool through a
  shell, ask for the size of the staged file (\<open>fs.promises.stat\<close>) and delete it
  (\<open>fs.promises.unlink\<close>). The file system is a map from paths to file sizes, and
  every call is appended to a trace. A tool is free to change the file system in any way
  and to exit normally or not: its behaviour is a parameter (\<open>run\<close>), given the command
  and the file system it starts in. \<open>stat\<close> and \<open>unlink\<close> fail on a missing path
  with \<open>ENOENT\<close>; \<open>unlink\<close> removes a path that is there. Everything the
  operating system throws is a plain \<open>Error\<close>.
\<close>

type_synonym path = string
type_synonym filesystem = "path \<rightharpoonup> nat"

datatype command = Pngpaste path | Osascript path | Xclip path | Xsel path | Powershell path

datatype syscall = Exec command | Stat path | Unlink path

record world =
  files :: filesystem
  trace :: "syscall list"

record env =
  platform :: string
  tempPath :: path
  run :: "command \<Rightarrow> filesystem \<Rightarrow> string option \<times> filesystem"

datatype thrown = ClipboardError string "thrown option" | Error string

fun instanceofClipboardError :: "thrown \<Rightarrow> bool" where
  "instanceofClipboardError (ClipboardError message cause) = True"
| "instanceofClipboardError (Error message) = False"

text \<open>\<open>ClipboardError\<close> extends \<open>Error\<close>.\<close>

fun instanceofError :: "thrown \<Rightarrow> bool" where
  "instanceofError (ClipboardError message cause) = True"
| "instanceofError (Error message) = True"

definition causeOf :: "thrown \<Rightarrow> thrown option" where
  "causeOf err = (if instanceofError err then Some err else None)"

definition execAsync :: "env \<Rightarrow> command \<Rightarrow> world \<Rightarrow> (thrown + unit) \<times> world" where
  "execAsync e cmd w =
     (case run e cmd (files w) of
        (failure, fs') \<Rightarrow>
          ((case failure of None \<Rightarrow> Inr () | Some message \<Rightarrow> Inl (Error message)),
           \<lparr>files = fs', trace = trace w @ [Exec cmd]\<rparr>))"

definition stat :: "path \<Rightarrow> world \<Rightarrow> (thrown + nat) \<times> world" where
  "stat p w =
     ((case files w p of
         None \<Rightarrow> Inl (Error (''ENOENT: no such file or directory, stat '' @ p))
       | Some sz \<Rightarrow> Inr sz),
      w\<lparr>trace := trace w @ [Stat p]\<rparr>)"

definition unlink :: "path \<Rightarrow> world \<Rightarrow> (thrown + unit) \<times> world" where
  "unlink p w =
     (case files w p of
        None \<Rightarrow>
          (Inl (Error (''ENOENT: no such file or directory, unlink '' @ p)),
           w\<lparr>trace := trace w @ [Unlink p]\<rparr>)
      | Some sz \<Rightarrow>
          (Inr (), \<lparr>files = (files w)(p := None), trace = trace w @ [Unlink p]\<rparr>))"

section \<open>clipboard.ts: the platform extractors\<close>

text \<open>The path comes from the clock, a random number and the temporary directory of the
  host; the model takes the result from the environment.\<close>

definition generateTempFilePath :: "env \<Rightarrow> path" where
  "generateTempFilePath e = tempPath e"

definition saveClipboardImageDarwin :: "env \<Rightarrow> path \<Rightarrow> world \<Rightarrow> (thrown + unit) \<times> world" where
  "saveClipboardImageDarwin e outputPath w =
     (case execAsync e (Pngpaste outputPath) w of
        (Inr u, w1) \<Rightarrow> (Inr (), w1)
      | (Inl err1, w1) \<Rightarrow>
          (case execAsync e (Osascript outputPath) w1 of
             (Inr u, w2) \<Rightarrow> (Inr (), w2)
           | (Inl err, w2) \<Rightarrow>
               (Inl (ClipboardError
                  ''No image in clipboard. Install pngpaste for better support: brew install pngpaste''
                  (causeOf err)), w2)))"

text \<open>
  One \<open>try\<close> block of the Linux extractor: run the tool, read the size of the file,
  return from the extractor (\<open>True\<close>) when it is positive, delete the file otherwise.
  Whatever is thrown inside the block is swallowed by its \<open>catch\<close>, and the extractor
  goes on (\<open>False\<close>).
\<close>

definition linux_attempt :: "env \<Rightarrow> command \<Rightarrow> path \<Rightarrow> world \<Rightarrow> bool \<times> world" where
  "linux_attempt e cmd outputPath w =
     (case execAsync e cmd w of
        (Inl err, w1) \<Rightarrow> (False, w1)
      | (Inr u, w1) \<Rightarrow>
          (case stat outputPath w1 of
             (Inl err, w2) \<Rightarrow> (False, w2)
           | (Inr sz, w2) \<Rightarrow>
               (if sz > 0 then (True, w2)
                else (case unlink outputPath w2 of (r, w3) \<Rightarrow> (False, w3)))))"

definition saveClipboardImageLinux :: "env \<Rightarrow> path \<Rightarrow> world \<Rightarrow> (thrown + unit) \<times> world" where
  "saveClipboardImageLinux e outputPath w =
     (case linux_attempt e (Xclip outputPath) outputPath w of
        (True, w1) \<Rightarrow> (Inr (), w1)
      | (False, w1) \<Rightarrow>
          (case linux_attempt e (Xsel outputPath) outputPath w1 of
             (True, w2) \<Rightarrow> (Inr (), w2)
           | (False, w2) \<Rightarrow>
               (Inl (ClipboardError
                  ''No image in clipboard or missing clipboard tools. Install xclip: sudo apt install xclip''
                  None), w2)))"

definition saveClipboardImageWindows :: "env \<Rightarrow> path \<Rightarrow> world \<Rightarrow> (thrown + unit) \<times> world" where
  "saveClipboardImageWindows e outputPath w =
     (case execAsync e (Powershell outputPath) w of
        (Inr u, w1) \<Rightarrow> (Inr (), w1)
      | (Inl err, w1) \<Rightarrow> (Inl (ClipboardError ''No image in clipboard'' (causeOf err)), w1))"

section \<open>clipboard.ts: the acquisition facade\<close>

text \<open>The \<open>catch\<close> block of \<open>saveClipboardImage\<close>: delete the file, ignore what the
  deletion throws, rethrow a \<open>ClipboardError\<close> as it is and wrap anything else.\<close>

definition cleanup_and_rethrow :: "path \<Rightarrow> thrown \<Rightarrow> world \<Rightarrow> (thrown + path) \<times> world" where
  "cleanup_and_rethrow outputPath err w =
     (case unlink outputPath w of
        (r, w') \<Rightarrow>
          (if instanceofClipboardError err then (Inl err, w')
           else (Inl (ClipboardError ''Failed to save clipboard image'' (causeOf err)), w')))"

definition dispatch :: "env \<Rightarrow> path \<Rightarrow> world \<Rightarrow> (thrown + unit) \<times> world" where
  "dispatch e outputPath w =
     (if platform e = ''darwin'' then saveClipboardImageDarwin e outputPath w
      else if platform e = ''linux'' then saveClipboardImageLinux e outputPath w
      else if platform e = ''win32'' then saveClipboardImageWindows e outputPath w
      else (Inl (ClipboardError (''Unsupported platform: '' @ platform e) None), w))"

definition saveClipboardImage :: "env \<Rightarrow> world \<Rightarrow> (thrown + path) \<times> world" where
  "saveClipboardImage e w =
     (let outputPath = generateTempFilePath e in
      case dispatch e outputPath w of
        (Inl err, w1) \<Rightarrow> cleanup_and_rethrow outputPath err w1
      | (Inr u, w1) \<Rightarrow>
          (case stat outputPath w1 of
             (Inl err, w2) \<Rightarrow> cleanup_and_rethrow outputPath err w2
           | (Inr sz, w2) \<Rightarrow>
               (if sz = 0
                then (case unlink outputPath w2 of
                        (Inl err, w3) \<Rightarrow> cleanup_and_rethrow outputPath err w3
                      | (Inr u, w3) \<Rightarrow>
                          cleanup_and_rethrow outputPath
                            (ClipboardError ''No image in clipboard'' None) w3)
                else (Inr outputPath, w2))))"

definition cleanupTempFile :: "path \<Rightarrow> world \<Rightarrow> world" where
  "cleanupTempFile filePath w = snd (unlink filePath w)"


section \<open>Vocabulary of the properties\<close>

text \<open>
  The definitions of this section describe inputs and expected results; none of them is
  part of the extension.

  A data event carries a chunk of output; the other two events settle the promise. The
  text a process has written is the concatenation of its chunks.
\<close>

fun is_data :: "proc_event \<Rightarrow> bool" where
  "is_data (StdoutData d) = True"
| "is_data (StderrData d) = True"
| "is_data (Close code) = False"
| "is_data (ProcError message) = False"

fun stdout_of :: "proc_event list \<Rightarrow> string" where
  "stdout_of [] = []"
| "stdout_of (StdoutData d # evs) = d @ stdout_of evs"
| "stdout_of (ev # evs) = stdout_of evs"

fun stderr_of :: "proc_event list \<Rightarrow> string" where
  "stderr_of [] = []"
| "stderr_of (StderrData d # evs) = d @ stderr_of evs"
| "stderr_of (ev # evs) = stderr_of evs"

text \<open>
  The result formatter as the specification words it: every occurrence of a token is
  replaced by the value itself, first for \<open>${fileName}\<close>, then for \<open>${url}\<close>.
\<close>

function literal_replace :: "string \<Rightarrow> string \<Rightarrow> string \<Rightarrow> string" where
  "literal_replace tok v [] = []"
| "literal_replace tok v (c # cs) =
     (if prefix tok (c # cs) then v @ literal_replace tok v (drop (length tok - 1) cs)
      else c # literal_replace tok v cs)"
  by pat_completeness auto
termination
  by (relation "measure (\<lambda>(tok, v, s). length s)") auto

definition formatUrl_spec :: "string \<Rightarrow> UploadResult \<Rightarrow> string" where
  "formatUrl_spec template result =
     literal_replace ''${url}'' (url result)
       (literal_replace ''${fileName}'' (filename result) template)"

text \<open>A value holds a replacement pattern when a dollar sign in it is followed by
  \<open>$\<close>, \<open>&\<close>, a backquote or a quote.\<close>

fun has_pattern :: "string \<Rightarrow> bool" where
  "has_pattern [] = False"
| "has_pattern [c] = False"
| "has_pattern (c # d # rest) =
     ((c = CHR ''$'' \<and> (d = CHR ''$'' \<or> d = CHR ''&'' \<or> d = CHR 0x60 \<or> d = CHR 0x27))
      \<or> has_pattern (d # rest))"

text \<open>
  One attempt of the Linux extractor, seen from the file system: it succeeds when the
  tool exits normally and leaves a file of positive size at the path; a file of size
  zero left by a tool that exited normally is gone afterwards; the calls it makes are
  the tool alone when the tool exits abnormally, the tool and \<open>stat\<close> otherwise,
  followed by \<open>unlink\<close> when the size read is zero.
\<close>

definition tool_ok :: "env \<Rightarrow> command \<Rightarrow> path \<Rightarrow> filesystem \<Rightarrow> bool" where
  "tool_ok e cmd p fs =
     (case run e cmd fs of
        (failure, fs') \<Rightarrow>
          failure = None \<and> (case fs' p of None \<Rightarrow> False | Some n \<Rightarrow> 0 < n))"

definition files_after :: "env \<Rightarrow> command \<Rightarrow> path \<Rightarrow> filesystem \<Rightarrow> filesystem" where
  "files_after e cmd p fs =
     (case run e cmd fs of
        (failure, fs') \<Rightarrow> if failure = None \<and> fs' p = Some 0 then fs'(p := None) else fs')"

definition calls_of :: "env \<Rightarrow> command \<Rightarrow> path \<Rightarrow> filesystem \<Rightarrow> syscall list" where
  "calls_of e cmd p fs =
     (case run e cmd fs of
        (failure, fs') \<Rightarrow>
          if failure \<noteq> None then [Exec cmd]
          else if fs' p = Some 0 then [Exec cmd, Stat p, Unlink p]
          else [Exec cmd, Stat p])"

text \<open>An error is readable when its message is not empty; the operating system's
  errors are taken to be.\<close>

fun readable :: "thrown \<Rightarrow> bool" where
  "readable (ClipboardError message cause) = (message \<noteq> [])"
| "readable (Error message) = True"

subsection \<open>Example hosts\<close>

text \<open>
  A Linux host with neither tool installed: the shell creates the redirection target,
  finds no tool and exits with a failure. A Linux host whose clipboard holds an image
  that \<open>xclip\<close> writes out. A Linux host where \<open>xclip\<close> exits normally without
  output and \<open>xsel\<close> delivers the image.
\<close>

definition staged :: path where
  "staged = ''/tmp/clipboard-1-k3x9ab.png''"

definition empty_world :: world where
  "empty_world = \<lparr>files = Map.empty, trace = []\<rparr>"

definition no_tools_env :: env where
  "no_tools_env =
     \<lparr>platform = ''linux'', tempPath = staged,
      run = (\<lambda>cmd fs. case cmd of
               Xclip p \<Rightarrow> (Some ''/bin/sh: xclip: not found'', fs(p \<mapsto> 0))
             | Xsel p \<Rightarrow> (Some ''/bin/sh: xsel: not found'', fs(p \<mapsto> 0))
             | _ \<Rightarrow> (Some ''not found'', fs))\<rparr>"

definition image_env :: env where
  "image_env =
     \<lparr>platform = ''linux'', tempPath = staged,
      run = (\<lambda>cmd fs. case cmd of
               Xclip p \<Rightarrow> (None, fs(p \<mapsto> 2048))
             | _ \<Rightarrow> (Some ''not found'', fs))\<rparr>"

definition xclip_empty_env :: env where
  "xclip_empty_env =
     \<lparr>platform = ''linux'', tempPath = staged,
      run = (\<lambda>cmd fs. case cmd of
               Xclip p \<Rightarrow> (None, fs(p \<mapsto> 0))
             | Xsel p \<Rightarrow> (None, fs(p \<mapsto> 2048))
             | _ \<Rightarrow> (Some ''not found'', fs))\<rparr>"

lemmas host_defs =
  staged_def empty_world_def no_tools_env_def image_env_def xclip_empty_env_def

lemmas clipboard_defs =
  saveClipboardImage_def dispatch_def saveClipboardImageLinux_def linux_attempt_def
  execAsync_def stat_def unlink_def cleanup_and_rethrow_def generateTempFilePath_def Let_def

section \<open>The acquisition facade: cleanup, verification, error kind\<close>

lemma cleanup_and_rethrow_effect:
  assumes "cleanup_and_rethrow p err w = (r, w')"
  shows "trace w' = trace w @ [Unlink p]" and "files w' p = None"
    and "r = Inl (if instanceofClipboardError err then err
                  else ClipboardError ''Failed to save clipboard image'' (causeOf err))"
  using assms
  by (auto simp: cleanup_and_rethrow_def unlink_def split: option.splits if_splits)

lemma stat_Inr:
  assumes "stat p w = (Inr n, w')"
  shows "files w p = Some n" and "w' = w\<lparr>trace := trace w @ [Stat p]\<rparr>"
  using assms by (auto simp: stat_def split: option.splits)

lemma saveClipboardImage_cases:
  assumes "saveClipboardImage e w = (r, w')"
  obtains (failed) err w1 where "cleanup_and_rethrow (generateTempFilePath e) err w1 = (r, w')"
  | (verified) w1 n where "stat (generateTempFilePath e) w1 = (Inr n, w')" and "0 < n"
      and "r = Inr (generateTempFilePath e)"
  using assms
  by (auto simp: saveClipboardImage_def Let_def split: prod.splits sum.splits if_splits)



text \<open>
  C2. Whenever \<open>saveClipboardImage\<close> returns a path, it is the generated path, the
  file at that path has a size greater than zero in the state the function returns in,
  and reading that size was the last thing the function did.
\<close>

theorem saveClipboardImage_returns_nonempty_file:
  assumes "saveClipboardImage e w = (Inr p, w')"
  shows "p = generateTempFilePath e \<and> (\<exists>n. files w' p = Some n \<and> 0 < n)
         \<and> trace w' \<noteq> [] \<and> last (trace w') = Stat p"
  using assms
proof (cases rule: saveClipboardImage_cases)
  case (failed err1 w1)
  from cleanup_and_rethrow_effect(3)[OF this] show ?thesis by simp
next
  case (verified w1 n)
  from stat_Inr[OF verified(1)] verified(2,3) show ?thesis by simp
qed

theorem saveClipboardImage_returns_nonempty_file_witness:
  "fst (saveClipboardImage image_env empty_world) = Inr staged
   \<and> (\<exists>n. files (snd (saveClipboardImage image_env empty_world)) staged = Some n \<and> 0 < n)"
proof -
  let ?run = "saveClipboardImage image_env empty_world"
  have success: "fst ?run = Inr staged"
    by (simp add: clipboard_defs host_defs)
  then have "?run = (Inr staged, snd ?run)"
    by (simp add: prod_eq_iff)
  from saveClipboardImage_returns_nonempty_file[OF this] success show ?thesis
    by simp
qed


lemma dispatch_readable:
  assumes "dispatch e p w = (Inl err, w1)"
  shows "readable err"
  using assms
  by (auto simp: dispatch_def saveClipboardImageDarwin_def saveClipboardImageLinux_def
        saveClipboardImageWindows_def
        split: if_splits prod.splits sum.splits bool.splits)

lemma stat_readable: "stat p w = (Inl err, w1) \<Longrightarrow> readable err"
  by (auto simp: stat_def split: option.splits)

lemma unlink_readable: "unlink p w = (Inl err, w1) \<Longrightarrow> readable err"
  by (auto simp: unlink_def split: option.splits)

lemma cleanup_and_rethrow_error:
  "fst (cleanup_and_rethrow p err w) =
     Inl (if instanceofClipboardError err then err
          else ClipboardError ''Failed to save clipboard image'' (causeOf err))"
  by (simp add: cleanup_and_rethrow_def split: prod.splits)

lemma cleanup_and_rethrow_readable:
  assumes "readable err" and "cleanup_and_rethrow p err w = (Inl err', w')"
  shows "\<exists>message cause. err' = ClipboardError message cause \<and> message \<noteq> []"
proof -
  from assms(2) cleanup_and_rethrow_error[of p err w]
  have "err' = (if instanceofClipboardError err then err
          else ClipboardError ''Failed to save clipboard image'' (causeOf err))" by simp
  with assms(1) show ?thesis by (cases err) simp_all
qed

lemma saveClipboardImage_failure:
  assumes "saveClipboardImage e w = (Inl err', w')"
  shows "\<exists>err w1. readable err
           \<and> cleanup_and_rethrow (generateTempFilePath e) err w1 = (Inl err', w')"
proof -
  have empty: "readable (ClipboardError ''No image in clipboard'' None)" by simp
  show ?thesis
    using assms
    by (auto simp: saveClipboardImage_def Let_def
          split: prod.splits sum.splits if_splits
          intro: dispatch_readable stat_readable unlink_readable empty)
qed

text \<open>
  C8. Every error that leaves \<open>saveClipboardImage\<close> is a \<open>ClipboardError\<close> with a
  message that is not empty (and a cause or none). The \<open>catch\<close> block passes a
  \<open>ClipboardError\<close> on as it is, message and cause unchanged, and wraps any other
  error into a \<open>ClipboardError\<close> that carries it as its cause.
\<close>

theorem saveClipboardImage_throws_ClipboardError:
  "(saveClipboardImage e w = (Inl err, w') \<longrightarrow>
      (\<exists>message cause. err = ClipboardError message cause \<and> message \<noteq> []))
   \<and> fst (cleanup_and_rethrow p (ClipboardError message cause) w)
        = Inl (ClipboardError message cause)
   \<and> fst (cleanup_and_rethrow p (Error message) w)
        = Inl (ClipboardError ''Failed to save clipboard image'' (Some (Error message)))"
proof (intro conjI impI)
  assume "saveClipboardImage e w = (Inl err, w')"
  then show "\<exists>message cause. err = ClipboardError message cause \<and> message \<noteq> []"
    using saveClipboardImage_failure cleanup_and_rethrow_readable by blast
qed (simp_all add: cleanup_and_rethrow_error causeOf_def)

theorem saveClipboardImage_throws_ClipboardError_witness:
  "\<exists>message cause.
      fst (saveClipboardImage (no_tools_env\<lparr>platform := ''sunos''\<rparr>) empty_world)
        = Inl (ClipboardError message cause) \<and> message \<noteq> []"
proof -
  let ?run = "saveClipboardImage (no_tools_env\<lparr>platform := ''sunos''\<rparr>) empty_world"
  let ?err = "ClipboardError ''Unsupported platform: sunos'' None"
  have failure: "fst ?run = Inl ?err"
    by (simp add: clipboard_defs host_defs)
  then have "?run = (Inl ?err, snd ?run)"
    by (simp add: prod_eq_iff)
  from saveClipboardImage_throws_ClipboardError[THEN conjunct1, rule_format, OF this]
  obtain message cause where "?err = ClipboardError message cause" and "message \<noteq> []"
    by blast
  with failure show ?thesis by metis
qed

section \<open>The Linux extractor\<close>

lemma linux_attempt_eq:
  "linux_attempt e cmd p w =
     (tool_ok e cmd p (files w),
      \<lparr>files = files_after e cmd p (files w), trace = trace w @ calls_of e cmd p (files w)\<rparr>)"
  by (auto simp: linux_attempt_def execAsync_def stat_def unlink_def tool_ok_def
        files_after_def calls_of_def split: prod.splits option.splits)

text \<open>
  C5, as the claim states it, fails on a host without the tools: both tools are run,
  the size of the file is never read, and the file of size zero that the shell created is
  still there when the extractor throws its error.
\<close>

theorem saveClipboardImageLinux_skips_check_counterexample:
  "fst (saveClipboardImageLinux no_tools_env staged empty_world)
     = Inl (ClipboardError
         ''No image in clipboard or missing clipboard tools. Install xclip: sudo apt install xclip''
         None)
   \<and> trace (snd (saveClipboardImageLinux no_tools_env staged empty_world))
       = [Exec (Xclip staged), Exec (Xsel staged)]
   \<and> files (snd (saveClipboardImageLinux no_tools_env staged empty_world)) staged = Some 0"
  by (simp add: clipboard_defs host_defs)

text \<open>
  C5, amended. The Linux extractor runs \<open>xclip\<close> and, unless that attempt succeeds,
  \<open>xsel\<close>. After a tool that exits normally the size of the file is read: a positive
  size makes the attempt a success and ends the extractor, a size of zero makes it a
  failure and the file is deleted. A tool that exits abnormally is a failed attempt with
  no further call. The extractor throws its \<open>ClipboardError\<close> (the one that names
  \<open>xclip\<close>, without a cause) exactly when both attempts failed.
\<close>

theorem saveClipboardImageLinux_attempts:
  assumes "saveClipboardImageLinux e p w = (r, w')"
    and "fs1 = files_after e (Xclip p) p (files w)"
  shows "r = (if tool_ok e (Xclip p) p (files w) \<or> tool_ok e (Xsel p) p fs1 then Inr ()
              else Inl (ClipboardError
                ''No image in clipboard or missing clipboard tools. Install xclip: sudo apt install xclip''
                None))
       \<and> files w' = (if tool_ok e (Xclip p) p (files w) then fs1
                      else files_after e (Xsel p) p fs1)
       \<and> trace w' = trace w @ calls_of e (Xclip p) p (files w)
                      @ (if tool_ok e (Xclip p) p (files w) then []
                         else calls_of e (Xsel p) p fs1)"
  using assms
  by (auto simp: saveClipboardImageLinux_def linux_attempt_eq split: bool.splits)

theorem saveClipboardImageLinux_attempts_witness:
  "fst (saveClipboardImageLinux xclip_empty_env staged empty_world) = Inr ()
   \<and> files (snd (saveClipboardImageLinux xclip_empty_env staged empty_world)) staged = Some 2048
   \<and> trace (snd (saveClipboardImageLinux xclip_empty_env staged empty_world))
       = [Exec (Xclip staged), Stat staged, Unlink staged, Exec (Xsel staged), Stat staged]"
proof -
  let ?run = "saveClipboardImageLinux xclip_empty_env staged empty_world"
  have "?run = (fst ?run, snd ?run)" by simp
  from saveClipboardImageLinux_attempts[OF this refl] show ?thesis
    by (simp add: tool_ok_def files_after_def calls_of_def host_defs)
qed


section \<open>The upload invoker\<close>

lemma foldl_data:
  "\<forall>ev\<in>set pre. is_data ev \<Longrightarrow>
   foldl (on_event ps) st pre =
     st\<lparr>stdout := stdout st @ stdout_of pre, stderr := stderr st @ stderr_of pre\<rparr>"
proof (induction pre arbitrary: st)
  case Nil
  then show ?case by simp
next
  case (Cons ev pre)
  then show ?case by (cases ev) simp_all
qed

lemma settled_on_event:
  "settled st \<noteq> Pending \<Longrightarrow> settled (on_event ps st ev) = settled st"
  by (cases ev; cases "settled st")
     (simp_all add: on_close_def on_error_def reject_def resolve_def)

lemma settled_foldl:
  "settled st \<noteq> Pending \<Longrightarrow> settled (foldl (on_event ps) st evs) = settled st"
  by (induction evs arbitrary: st) (simp_all add: settled_on_event)

lemma uploadImages_data_only:
  assumes "\<forall>ev\<in>set pre. is_data ev"
  shows "uploadImages ps pre = Pending"
  using foldl_data[OF assms] by (simp add: uploadImages_def)

lemma uploadImages_first_close:
  assumes "\<forall>ev\<in>set pre. is_data ev"
  shows "uploadImages ps (pre @ Close code # post) =
     (if code \<noteq> Some 0
      then Rejected (if stderr_of pre \<noteq> [] then stderr_of pre
                     else ''pic-od exited with code '' @ show_code code)
      else Resolved (make_results ps (parse_urls (stdout_of pre))))"
proof -
  let ?st = "foldl (on_event ps) \<lparr>stdout = [], stderr = [], settled = Pending\<rparr> pre"
  have st: "?st = \<lparr>stdout = stdout_of pre, stderr = stderr_of pre, settled = Pending\<rparr>"
    using foldl_data[OF assms] by simp
  have "settled (on_close ps code ?st) \<noteq> Pending"
    by (simp add: st on_close_def reject_def resolve_def)
  then have "uploadImages ps (pre @ Close code # post) = settled (on_close ps code ?st)"
    by (simp add: uploadImages_def settled_foldl)
  then show ?thesis
    by (simp add: st on_close_def reject_def resolve_def)
qed

lemma uploadImages_first_error:
  assumes "\<forall>ev\<in>set pre. is_data ev"
  shows "uploadImages ps (pre @ ProcError m # post)
           = Rejected (''Failed to execute pic-od: '' @ m)"
proof -
  let ?st = "foldl (on_event ps) \<lparr>stdout = [], stderr = [], settled = Pending\<rparr> pre"
  have st: "?st = \<lparr>stdout = stdout_of pre, stderr = stderr_of pre, settled = Pending\<rparr>"
    using foldl_data[OF assms] by simp
  have "settled (on_error m ?st) \<noteq> Pending"
    by (simp add: st on_error_def reject_def)
  then have "uploadImages ps (pre @ ProcError m # post) = settled (on_error m ?st)"
    by (simp add: uploadImages_def settled_foldl)
  then show ?thesis
    by (simp add: st on_error_def reject_def)
qed

text \<open>An event list holds no settling event, or a first one: a \<open>close\<close> or an
  \<open>error\<close> behind data events only.\<close>

lemma events_split:
  obtains (hung) "\<forall>ev\<in>set evs. is_data ev"
  | (closed) pre code post where "evs = pre @ Close code # post" "\<forall>ev\<in>set pre. is_data ev"
  | (failed) pre m post where "evs = pre @ ProcError m # post" "\<forall>ev\<in>set pre. is_data ev"
proof (cases "dropWhile is_data evs")
  case Nil
  then have "\<forall>ev\<in>set evs. is_data ev" by (simp add: dropWhile_eq_Nil_conv)
  then show ?thesis by (rule hung)
next
  case (Cons t post)
  have pre: "\<forall>ev\<in>set (takeWhile is_data evs). is_data ev" by (auto dest: set_takeWhileD)
  have split: "evs = takeWhile is_data evs @ t # post"
    using Cons takeWhile_dropWhile_id[of is_data evs] by simp
  have "\<not> is_data t" using Cons hd_dropWhile[of is_data evs] by auto
  then show ?thesis
  proof (cases t)
    case (Close code)
    with split pre show ?thesis using closed by blast
  next
    case (ProcError m)
    with split pre show ?thesis using failed by blast
  qed simp_all
qed

lemma make_results_length: "length (make_results ps urls) = length ps"
  by (simp add: make_results_def)

lemma make_results_nth:
  "i < length ps \<Longrightarrow>
   make_results ps urls ! i = \<lparr>filename = basename (ps ! i), url = index_or_empty urls i\<rparr>"
  by (simp add: make_results_def nth_enumerate_eq)

lemma parse_urls_nonempty: "u \<in> set (parse_urls out) \<Longrightarrow> u \<noteq> []"
  by (simp add: parse_urls_def filterBoolean_def)

lemmas upload_defs =
  uploadImages_def on_close_def on_error_def resolve_def reject_def make_results_def
  parse_urls_def filterBoolean_def trim_def isWhiteSpace_def index_or_empty_def
  basename_def enumerate_eq_zip show_code_def show_int_def

text \<open>
  C3. Let the process deliver data and then close with exit code 0, and let the lines
  read from its standard output (trimmed, split at line feeds, empty lines dropped) be
  fewer than the input paths: M lines for N paths. Then the promise is resolved, with N
  results; the result at an index below M carries the line of that index as its URL, and
  every result from index M on carries the empty string.
\<close>

theorem uploadImages_fewer_lines_than_paths:
  assumes "\<forall>ev\<in>set pre. is_data ev"
    and "urls = parse_urls (stdout_of pre)"
    and "length urls < length imagePaths"
  shows "\<exists>results. uploadImages imagePaths (pre @ Close (Some 0) # post) = Resolved results
           \<and> length results = length imagePaths
           \<and> (\<forall>i. i < length urls \<longrightarrow> url (results ! i) = urls ! i)
           \<and> (\<forall>i. length urls \<le> i \<and> i < length imagePaths \<longrightarrow> url (results ! i) = [])"
proof -
  let ?rs = "make_results imagePaths urls"
  have "uploadImages imagePaths (pre @ Close (Some 0) # post) = Resolved ?rs"
    using assms(1,2) by (simp add: uploadImages_first_close)
  moreover have "length ?rs = length imagePaths" by (rule make_results_length)
  moreover have "url (?rs ! i) = urls ! i" if "i < length urls" for i
  proof -
    from that have "urls ! i \<noteq> []" using parse_urls_nonempty assms(2) nth_mem by blast
    with that assms(3) show ?thesis by (simp add: make_results_nth index_or_empty_def)
  qed
  moreover have "url (?rs ! i) = []" if "length urls \<le> i \<and> i < length imagePaths" for i
    using that by (simp add: make_results_nth index_or_empty_def)
  ultimately show ?thesis by blast
qed

theorem uploadImages_fewer_lines_than_paths_witness:
  "\<exists>results.
      uploadImages [''/tmp/a.png'', ''/tmp/b.png'']
        [StdoutData (''http://cdn/a.png'' @ [CHR 0x0A]), Close (Some 0)] = Resolved results
      \<and> length results = 2
      \<and> url (results ! 0) = ''http://cdn/a.png''
      \<and> url (results ! 1) = []"
proof -
  let ?pre = "[StdoutData (''http://cdn/a.png'' @ [CHR 0x0A])]"
  have data: "\<forall>ev\<in>set ?pre. is_data ev" by simp
  have urls: "[''http://cdn/a.png''] = parse_urls (stdout_of ?pre)"
    by (simp add: parse_urls_def filterBoolean_def trim_def isWhiteSpace_def)
  have fewer: "length [''http://cdn/a.png''] < length [''/tmp/a.png'', ''/tmp/b.png'']"
    by simp
  from uploadImages_fewer_lines_than_paths[OF data urls fewer, of "[]"]
  obtain results where
    "uploadImages [''/tmp/a.png'', ''/tmp/b.png''] (?pre @ [Close (Some 0)]) = Resolved results"
    and "length results = length [''/tmp/a.png'', ''/tmp/b.png'']"
    and low: "\<forall>i. i < length [''http://cdn/a.png''] \<longrightarrow>
                url (results ! i) = [''http://cdn/a.png''] ! i"
    and high: "\<forall>i. length [''http://cdn/a.png''] \<le> i
                \<and> i < length [''/tmp/a.png'', ''/tmp/b.png''] \<longrightarrow> url (results ! i) = []"
    by blast
  moreover from low have "url (results ! 0) = ''http://cdn/a.png''" by simp
  moreover from high have "url (results ! 1) = []" by simp
  ultimately show ?thesis by simp
qed

text \<open>
  C9. Let the process deliver data and then close with exit code 0. Then the promise is
  resolved with exactly one result for each input path, in the order of the paths: the
  file name of the result at an index is the base name of the path at that index, and
  its URL is the line of that index, or the empty string when there is no such line.
  Lines at an index from the number of paths on appear in no result.
\<close>

theorem uploadImages_one_result_per_path:
  assumes "\<forall>ev\<in>set pre. is_data ev"
    and "urls = parse_urls (stdout_of pre)"
  shows "\<exists>results. uploadImages imagePaths (pre @ Close (Some 0) # post) = Resolved results
           \<and> length results = length imagePaths
           \<and> (\<forall>i. i < length imagePaths \<longrightarrow>
                 filename (results ! i) = basename (imagePaths ! i)
                 \<and> url (results ! i) = (if i < length urls then urls ! i else []))"
proof -
  let ?rs = "make_results imagePaths urls"
  have "uploadImages imagePaths (pre @ Close (Some 0) # post) = Resolved ?rs"
    using assms by (simp add: uploadImages_first_close)
  moreover have "length ?rs = length imagePaths" by (rule make_results_length)
  moreover have "filename (?rs ! i) = basename (imagePaths ! i)
      \<and> url (?rs ! i) = (if i < length urls then urls ! i else [])"
    if "i < length imagePaths" for i
  proof (cases "i < length urls")
    case True
    then have "urls ! i \<noteq> []" using parse_urls_nonempty assms(2) nth_mem by blast
    with True that show ?thesis by (simp add: make_results_nth index_or_empty_def)
  next
    case False
    with that show ?thesis by (simp add: make_results_nth index_or_empty_def)
  qed
  ultimately show ?thesis by blast
qed

theorem uploadImages_one_result_per_path_witness:
  "\<exists>results.
      uploadImages [''/home/u/pic/a.png'']
        [StdoutData (''http://cdn/a.png'' @ [CHR 0x0A] @ ''http://cdn/b.png'' @ [CHR 0x0A]),
         Close (Some 0)] = Resolved results
      \<and> length results = 1
      \<and> filename (results ! 0) = ''a.png''
      \<and> url (results ! 0) = ''http://cdn/a.png''"
proof -
  let ?pre = "[StdoutData (''http://cdn/a.png'' @ [CHR 0x0A] @ ''http://cdn/b.png'' @ [CHR 0x0A])]"
  have data: "\<forall>ev\<in>set ?pre. is_data ev" by simp
  have urls: "[''http://cdn/a.png'', ''http://cdn/b.png''] = parse_urls (stdout_of ?pre)"
    by (simp add: parse_urls_def filterBoolean_def trim_def isWhiteSpace_def)
  from uploadImages_one_result_per_path[OF data urls, of "[''/home/u/pic/a.png'']" "[]"]
  obtain results where
    "uploadImages [''/home/u/pic/a.png''] (?pre @ [Close (Some 0)]) = Resolved results"
    and "length results = length [''/home/u/pic/a.png'']"
    and each: "\<forall>i. i < length [''/home/u/pic/a.png''] \<longrightarrow>
        filename (results ! i) = basename ([''/home/u/pic/a.png''] ! i)
        \<and> url (results ! i) =
            (if i < length [''http://cdn/a.png'', ''http://cdn/b.png'']
             then [''http://cdn/a.png'', ''http://cdn/b.png''] ! i else [])"
    by blast
  moreover from each have "filename (results ! 0) = ''a.png''
      \<and> url (results ! 0) = ''http://cdn/a.png''"
    by (simp add: basename_def)
  ultimately show ?thesis by simp
qed

text \<open>
  C6. The promise of \<open>uploadImages\<close> is rejected with a message in exactly two cases.
  Either the first settling event is a \<open>close\<close> whose code is not 0: then the message
  is the text written to standard error when that text is not empty, and
  \<open>pic-od exited with code N\<close> otherwise. Or the first settling event is an
  \<open>error\<close>: then the message is \<open>Failed to execute pic-od: \<close> followed by the
  message of that error.
\<close>

theorem uploadImages_rejects_iff:
  "uploadImages imagePaths events = Rejected message \<longleftrightarrow>
     (\<exists>pre code post. events = pre @ Close code # post \<and> (\<forall>ev\<in>set pre. is_data ev)
        \<and> code \<noteq> Some 0
        \<and> message = (if stderr_of pre \<noteq> [] then stderr_of pre
                      else ''pic-od exited with code '' @ show_code code))
   \<or> (\<exists>pre m post. events = pre @ ProcError m # post \<and> (\<forall>ev\<in>set pre. is_data ev)
        \<and> message = ''Failed to execute pic-od: '' @ m)"
  (is "?L \<longleftrightarrow> ?A \<or> ?B")
proof
  assume L: ?L
  show "?A \<or> ?B"
  proof (cases rule: events_split[of events])
    case hung
    with L show ?thesis by (simp add: uploadImages_data_only)
  next
    case (closed pre code post)
    with L have "code \<noteq> Some 0 \<and> message = (if stderr_of pre \<noteq> [] then stderr_of pre
                      else ''pic-od exited with code '' @ show_code code)"
      by (simp add: uploadImages_first_close split: if_splits)
    with closed have ?A by blast
    then show ?thesis ..
  next
    case (failed pre m post)
    with L have "message = ''Failed to execute pic-od: '' @ m"
      by (simp add: uploadImages_first_error)
    with failed have ?B by blast
    then show ?thesis ..
  qed
next
  assume "?A \<or> ?B"
  then show ?L
  proof
    assume ?A
    then show ?L by (auto simp: uploadImages_first_close)
  next
    assume ?B
    then show ?L by (auto simp: uploadImages_first_error)
  qed
qed

theorem uploadImages_rejects_iff_witness:
  "uploadImages [''/tmp/a.png''] [StdoutData ''uploading'', Close (Some 3)]
     = Rejected ''pic-od exited with code 3''
   \<and> uploadImages [''/tmp/a.png''] [StderrData ''no such profile'', Close (Some 1)]
     = Rejected ''no such profile''
   \<and> uploadImages [''/tmp/a.png''] [ProcError ''spawn pic-od ENOENT'', Close (Some (- 2))]
     = Rejected ''Failed to execute pic-od: spawn pic-od ENOENT''"
proof (intro conjI)
  have "\<exists>pre code post.
          [StdoutData ''uploading'', Close (Some 3)] = pre @ Close code # post
          \<and> (\<forall>ev\<in>set pre. is_data ev) \<and> code \<noteq> Some 0
          \<and> ''pic-od exited with code 3''
              = (if stderr_of pre \<noteq> [] then stderr_of pre
                 else ''pic-od exited with code '' @ show_code code)"
    by (rule exI[of _ "[StdoutData ''uploading'']"], rule exI[of _ "Some 3"],
        rule exI[of _ "[]"])
       (simp add: show_code_def show_int_def)
  then show "uploadImages [''/tmp/a.png''] [StdoutData ''uploading'', Close (Some 3)]
      = Rejected ''pic-od exited with code 3''"
    using uploadImages_rejects_iff by blast
next
  have "\<exists>pre code post.
          [StderrData ''no such profile'', Close (Some 1)] = pre @ Close code # post
          \<and> (\<forall>ev\<in>set pre. is_data ev) \<and> code \<noteq> Some 0
          \<and> ''no such profile''
              = (if stderr_of pre \<noteq> [] then stderr_of pre
                 else ''pic-od exited with code '' @ show_code code)"
    by (rule exI[of _ "[StderrData ''no such profile'']"], rule exI[of _ "Some 1"],
        rule exI[of _ "[]"])
       simp
  then show "uploadImages [''/tmp/a.png''] [StderrData ''no such profile'', Close (Some 1)]
      = Rejected ''no such profile''"
    using uploadImages_rejects_iff by blast
next
  have "\<exists>pre m post.
          [ProcError ''spawn pic-od ENOENT'', Close (Some (- 2))] = pre @ ProcError m # post
          \<and> (\<forall>ev\<in>set pre. is_data ev)
          \<and> ''Failed to execute pic-od: spawn pic-od ENOENT''
              = ''Failed to execute pic-od: '' @ m"
    by (rule exI[of _ "[]"], rule exI[of _ "''spawn pic-od ENOENT''"],
        rule exI[of _ "[Close (Some (- 2))]"])
       simp
  then show "uploadImages [''/tmp/a.png''] [ProcError ''spawn pic-od ENOENT'', Close (Some (- 2))]
      = Rejected ''Failed to execute pic-od: spawn pic-od ENOENT''"
    using uploadImages_rejects_iff by blast
qed

section \<open>Batch orchestration\<close>

text \<open>
  C7. When the upload is resolved and every result has the empty string as its URL,
  \<open>handleUpload\<close> completes with one effect, the warning
  \<open>No URLs returned from upload\<close>: nothing is inserted into the editor and no
  error message is shown or logged, whatever the template and the editor.
\<close>

theorem handleUpload_no_urls_warning:
  assumes "uploadImages imagePaths events = Resolved results"
    and "\<forall>r\<in>set results. url r = []"
  shows "handleUpload urlTemplate ed imagePaths events
           = Some [ShowWarning ''No URLs returned from upload'']"
proof -
  from assms(2) have "filter (\<lambda>r. url r \<noteq> []) results = []"
    by (simp add: filter_empty_conv)
  with assms(1) show ?thesis by (simp add: handleUpload_def)
qed

theorem handleUpload_no_urls_warning_witness:
  "handleUpload ''![${fileName}](${url})'' (Editor None) [''/tmp/a.png'']
      [StdoutData [CHR 0x0A], Close (Some 0)]
     = Some [ShowWarning ''No URLs returned from upload'']"
proof -
  have resolved: "uploadImages [''/tmp/a.png''] [StdoutData [CHR 0x0A], Close (Some 0)]
      = Resolved [\<lparr>filename = ''a.png'', url = []\<rparr>]"
    by (simp add: upload_defs)
  have "\<forall>r\<in>set [\<lparr>filename = ''a.png'', url = []\<rparr>]. url r = []" by simp
  from handleUpload_no_urls_warning[OF resolved this] show ?thesis .
qed

end
